theory Spec2Isabelle
  imports Complex_Main
begin

section \<open>Dates\<close>

text \<open>
  A JavaScript \<^verbatim>\<open>Date\<close> is modelled by its time value read on the local wall clock:
  the number of milliseconds since local midnight of 1 January 1970 (a Thursday).
  The local zone is taken to have a fixed offset from UTC (the facility is in Saudi
  Arabia, which has no daylight saving), so local days are exactly 24 hours long and
  differences of local time values are differences of \<^verbatim>\<open>getTime()\<close>.
  Only valid dates (no \<^verbatim>\<open>NaN\<close> time value) are modelled.
\<close>

type_synonym date = int

definition msPerMinute :: int where
  "msPerMinute = 1000 * 60"

definition msPerHour :: int where
  "msPerHour = 1000 * 60 * 60"

definition msPerDay :: int where
  "msPerDay = 1000 * 60 * 60 * 24"

definition getDay :: "date \<Rightarrow> int" where
  "getDay t = (t div msPerDay + 4) mod 7"

definition getHours :: "date \<Rightarrow> int" where
  "getHours t = (t mod msPerDay) div msPerHour"

definition getMinutes :: "date \<Rightarrow> int" where
  "getMinutes t = (t mod msPerHour) div msPerMinute"

text \<open>\<^verbatim>\<open>d.setHours(h, m, s, ms)\<close>: the day of \<open>d\<close> with a new time within the day;
  values out of range carry over into the neighbouring days.\<close>

definition setHours4 :: "date \<Rightarrow> int \<Rightarrow> int \<Rightarrow> int \<Rightarrow> int \<Rightarrow> date" where
  "setHours4 t h m s ms =
     (t div msPerDay) * msPerDay + h * msPerHour + m * msPerMinute + s * 1000 + ms"

text \<open>\<^verbatim>\<open>d.setHours(h)\<close>: only the hour is replaced; minutes, seconds and
  milliseconds are kept.\<close>

definition setHours1 :: "date \<Rightarrow> int \<Rightarrow> date" where
  "setHours1 t h = (t div msPerDay) * msPerDay + h * msPerHour + t mod msPerHour"

text \<open>\<^verbatim>\<open>d.setDate(d.getDate() + n)\<close>: the same time of day, \<open>n\<close> calendar days later.\<close>

definition setDateRel :: "date \<Rightarrow> int \<Rightarrow> date" where
  "setDateRel t n = t + n * msPerDay"

text \<open>JavaScript's \<^verbatim>\<open>%\<close> on numbers: the remainder has the sign of the dividend.\<close>

definition jsRemainder :: "rat \<Rightarrow> rat \<Rightarrow> rat" where
  "jsRemainder x y =
     x - y * of_int (if x / y < 0 then \<lceil>x / y\<rceil> else \<lfloor>x / y\<rfloor>)"

text \<open>\<^verbatim>\<open>String(n).padStart(2, "0")\<close> for the values \<^verbatim>\<open>getHours()\<close> and
  \<^verbatim>\<open>getMinutes()\<close> return, which lie between 0 and 59.\<close>

definition digitChar :: "int \<Rightarrow> char" where
  "digitChar n = ''0123456789'' ! nat n"

definition padStart2 :: "int \<Rightarrow> string" where
  "padStart2 n = [digitChar (n div 10), digitChar (n mod 10)]"

section \<open>Pricing service\<close>

datatype dayType = Weekday | Weekend

datatype timeSlot = Day | Night

datatype error = BadRequestError string | NotFoundError string | ConflictError string

text \<open>A document of the \<^verbatim>\<open>PricingRule\<close> collection.\<close>

record pricingRule =
  ruleDayType :: dayType
  ruleTimeSlot :: timeSlot
  pricePerHour :: rat
  isActive :: bool

text \<open>\<^verbatim>\<open>PricingRule.findOne({ dayType, timeSlot, isActive: true })\<close>\<close>

definition findOneRule :: "pricingRule list \<Rightarrow> dayType \<Rightarrow> timeSlot \<Rightarrow> pricingRule option" where
  "findOneRule rules dt ts =
     find (\<lambda>r. ruleDayType r = dt \<and> ruleTimeSlot r = ts \<and> isActive r) rules"

definition getDayOfWeek :: "date \<Rightarrow> int" where
  "getDayOfWeek d = getDay d"

declare getDayOfWeek_def [simp]

definition isWeekend :: "date \<Rightarrow> bool" where
  "isWeekend d = (let dy = getDayOfWeek d in dy = 5 \<or> dy = 6)"

definition isNightTime :: "int \<Rightarrow> bool" where
  "isNightTime hr = (hr \<ge> 18 \<or> hr < 9)"

definition getDayType :: "date \<Rightarrow> dayType" where
  "getDayType d = (if isWeekend d then Weekend else Weekday)"

definition getTimeSlot :: "int \<Rightarrow> timeSlot" where
  "getTimeSlot hr = (if isNightTime hr then Night else Day)"

definition getEffectiveDate :: "date \<Rightarrow> date" where
  "getEffectiveDate d =
     (let hr = getHours d in
      if hr \<ge> 0 \<and> hr < 4 then setDateRel d (- 1) else d)"

definition isSaturdayNight :: "date \<Rightarrow> int \<Rightarrow> bool" where
  "isSaturdayNight d hr =
     (let effectiveDate = getEffectiveDate d in
      getDayOfWeek effectiveDate = 6 \<and> isNightTime hr)"

definition dayTypeName :: "dayType \<Rightarrow> string" where
  "dayTypeName dt = (case dt of Weekday \<Rightarrow> ''weekday'' | Weekend \<Rightarrow> ''weekend'')"

definition timeSlotName :: "timeSlot \<Rightarrow> string" where
  "timeSlotName ts = (case ts of Day \<Rightarrow> ''day'' | Night \<Rightarrow> ''night'')"

definition ruleNotFound :: "dayType \<Rightarrow> timeSlot \<Rightarrow> error" where
  "ruleNotFound dt ts =
     BadRequestError (''Pricing rule not found for '' @ dayTypeName dt @ '' '' @ timeSlotName ts)"

definition getPrice :: "pricingRule list \<Rightarrow> date \<Rightarrow> int \<Rightarrow> error + (rat \<times> dayType \<times> timeSlot)" where
  "getPrice rules d hr =
     (if isSaturdayNight d hr then Inr (110, Weekend, Night)
      else
        let effectiveDate = getEffectiveDate d;
            dt = getDayType effectiveDate;
            ts = getTimeSlot hr
        in case findOneRule rules dt ts of
             None \<Rightarrow> Inl (ruleNotFound dt ts)
           | Some pricingRule \<Rightarrow> Inr (pricePerHour pricingRule, dt, ts))"

text \<open>
  One entry of the breakdown. \<open>hour\<close>, \<open>rate\<close>, \<open>dayType\<close> and \<open>timeSlot\<close> are the
  fields the loop pushes; \<open>currentTime\<close>, \<open>slotEnd\<close>, \<open>slotDuration\<close> and
  \<open>slotPrice\<close> record the loop's local variables of the same names in the iteration
  that pushed the entry (the label \<open>hour\<close> is formatted from the first two).
\<close>

record breakdownEntry =
  hour :: string
  rate :: rat
  dayType :: dayType
  timeSlot :: timeSlot
  currentTime :: date
  slotEnd :: date
  slotDuration :: rat
  slotPrice :: rat

record priceCalculation =
  totalHours :: rat
  breakdown :: "breakdownEntry list"
  finalPrice :: rat

definition hourLabel :: "date \<Rightarrow> date \<Rightarrow> string" where
  "hourLabel cur se =
     (let startStr = padStart2 (getHours cur) @ '':'' @ padStart2 (getMinutes cur);
          endStr = padStart2 (getHours se) @ '':'' @ padStart2 (getMinutes se)
      in startStr @ ''-'' @ endStr)"

definition nextHourOf :: "date \<Rightarrow> date" where
  "nextHourOf cur = setHours1 cur (getHours cur + 1)"

definition slotEndOf :: "date \<Rightarrow> date \<Rightarrow> date" where
  "slotEndOf endDateTime cur =
     (let nextHour = nextHourOf cur in
      if nextHour > endDateTime then endDateTime else nextHour)"

definition slotDurationOf :: "date \<Rightarrow> date \<Rightarrow> rat" where
  "slotDurationOf endDateTime cur =
     of_int (slotEndOf endDateTime cur - cur) / of_int msPerHour"

definition mkEntry :: "date \<Rightarrow> date \<Rightarrow> rat \<Rightarrow> dayType \<Rightarrow> timeSlot \<Rightarrow> breakdownEntry" where
  "mkEntry endDateTime cur price dt ts =
     \<lparr> hour = hourLabel cur (slotEndOf endDateTime cur),
       rate = price,
       dayType = dt,
       timeSlot = ts,
       currentTime = cur,
       slotEnd = slotEndOf endDateTime cur,
       slotDuration = slotDurationOf endDateTime cur,
       slotPrice = price * slotDurationOf endDateTime cur \<rparr>"

text \<open>
  The \<^verbatim>\<open>while (currentTime < endDateTime)\<close> loop, with its two accumulators
  \<^verbatim>\<open>totalPrice\<close> and \<^verbatim>\<open>breakdown\<close>. The definitions above are the values of one
  iteration: \<open>nextHourOf\<close> is \<^verbatim>\<open>nextHour\<close>, \<open>slotEndOf\<close> is \<^verbatim>\<open>slotEnd\<close>,
  \<open>slotDurationOf\<close> is \<^verbatim>\<open>slotDuration\<close>, \<open>hourLabel\<close> is the label made of
  \<^verbatim>\<open>startStr\<close> and \<^verbatim>\<open>endStr\<close>, and \<open>mkEntry\<close> is the object pushed. An error
  thrown by \<^verbatim>\<open>getPrice\<close> ends the loop and is the result.
\<close>

function priceLoop ::
  "pricingRule list \<Rightarrow> date \<Rightarrow> date \<Rightarrow> rat \<Rightarrow> breakdownEntry list
     \<Rightarrow> error + (rat \<times> breakdownEntry list)" where
  "priceLoop rules endDateTime cur totalPrice bd =
     (if cur < endDateTime then
        (case getPrice rules cur (getHours cur) of
           Inl e \<Rightarrow> Inl e
         | Inr (price, dt, ts) \<Rightarrow>
             priceLoop rules endDateTime (slotEndOf endDateTime cur)
               (totalPrice + price * slotDurationOf endDateTime cur)
               (bd @ [mkEntry endDateTime cur price dt ts]))
      else Inr (totalPrice, bd))"
  by pat_completeness auto
termination
proof (relation "measure (\<lambda>(rules, endDateTime, cur, totalPrice, bd). nat (endDateTime - cur))",
    goal_cases)
  case 1
  show ?case by simp
next
  case (2 rules endDateTime cur totalPrice bd x2 price y dt ts)
  have "cur mod msPerDay = (cur mod msPerDay) div msPerHour * msPerHour
          + (cur mod msPerDay) mod msPerHour"
    by simp
  moreover have "(cur mod msPerDay) mod msPerHour = cur mod msPerHour"
    by (simp add: msPerDay_def msPerHour_def mod_mod_cancel)
  moreover have "cur = cur div msPerDay * msPerDay + cur mod msPerDay"
    by simp
  ultimately have "cur div msPerDay * msPerDay
      + (cur mod msPerDay) div msPerHour * msPerHour + cur mod msPerHour = cur"
    by linarith
  then have "nextHourOf cur = cur + msPerHour"
    unfolding nextHourOf_def setHours1_def getHours_def by (simp add: algebra_simps)
  then have "cur < slotEndOf endDateTime cur"
    using 2(1) by (simp add: slotEndOf_def Let_def msPerHour_def)
  with 2(1) show ?case by simp
qed

declare priceLoop.simps [simp del]

text \<open>
  The \<^verbatim>\<open>bookingDate\<close> argument is a \<^verbatim>\<open>Date\<close> object or a string. A \<^verbatim>\<open>Date\<close>
  object is passed by reference, so the model returns its value after the call next to
  the result. A string carries the time value \<^verbatim>\<open>new Date(string)\<close> parses it to
  (the parser is the runtime's).
\<close>

datatype bookingDateArg = DateObject date | DateString date

definition timeValue :: "bookingDateArg \<Rightarrow> date" where
  "timeValue b = (case b of DateObject t \<Rightarrow> t | DateString t \<Rightarrow> t)"

definition minimumDurationError :: error where
  "minimumDurationError = BadRequestError ''Minimum booking duration is 1 hour''"

definition incrementError :: error where
  "incrementError =
     BadRequestError ''Bookings must be in 30-minute increments (e.g., 1.0h, 1.5h, 2.0h)''"

text \<open>
  \<^verbatim>\<open>startTime.split(":").map(Number)\<close> is taken as already done: a time of day is the
  pair (hour, minute) of integers it yields.
\<close>

definition calculateBookingPrice ::
  "pricingRule list \<Rightarrow> bookingDateArg \<Rightarrow> int \<times> int \<Rightarrow> int \<times> int
     \<Rightarrow> (error + priceCalculation) \<times> bookingDateArg" where
  "calculateBookingPrice rules bookingDate startTime endTime =
     (let dateObj = setHours4 (timeValue bookingDate) 0 0 0 0;
          bookingDate' = (case bookingDate of
                            DateObject t \<Rightarrow> DateObject dateObj
                          | DateString t \<Rightarrow> DateString t);
          (startHour, startMinute) = startTime;
          (endHour, endMinute) = endTime;
          startDateTime = setHours4 dateObj startHour startMinute 0 0;
          endDateTime0 = setHours4 dateObj endHour endMinute 0 0;
          endDateTime = (if endDateTime0 \<le> startDateTime
                         then setDateRel endDateTime0 1 else endDateTime0);
          totalMilliseconds = endDateTime - startDateTime;
          totalHrs = of_int totalMilliseconds / of_int (1000 * 60 * 60);
          minutes = jsRemainder (of_int totalMilliseconds / of_int (1000 * 60)) 60
      in
        if totalHrs < 1 then (Inl minimumDurationError, bookingDate')
        else if minutes \<noteq> 0 \<and> minutes \<noteq> 30 then (Inl incrementError, bookingDate')
        else
          (case priceLoop rules endDateTime startDateTime 0 [] of
             Inl e \<Rightarrow> (Inl e, bookingDate')
           | Inr (totalPrice, bd) \<Rightarrow>
               (Inr \<lparr> totalHours = totalHrs, breakdown = bd, finalPrice = totalPrice \<rparr>,
                bookingDate')))"

text \<open>The rules \<^verbatim>\<open>initializePricingRules\<close> inserts into an empty collection.\<close>

definition defaultRules :: "pricingRule list" where
  "defaultRules =
     [\<lparr>ruleDayType = Weekday, ruleTimeSlot = Day, pricePerHour = 80, isActive = True\<rparr>,
      \<lparr>ruleDayType = Weekday, ruleTimeSlot = Night, pricePerHour = 100, isActive = True\<rparr>,
      \<lparr>ruleDayType = Weekend, ruleTimeSlot = Day, pricePerHour = 100, isActive = True\<rparr>,
      \<lparr>ruleDayType = Weekend, ruleTimeSlot = Night, pricePerHour = 135, isActive = True\<rparr>]"

section \<open>Notions used to state the properties\<close>

text \<open>
  The requested range as the spec words it: times of day in minutes, and the resolved
  duration, where an end at or before the start lies on the next calendar day.
\<close>

definition minuteOfDay :: "int \<times> int \<Rightarrow> int" where
  "minuteOfDay t = fst t * 60 + snd t"

definition resolvedMinutes :: "int \<times> int \<Rightarrow> int \<times> int \<Rightarrow> int" where
  "resolvedMinutes startTime endTime =
     (let s = minuteOfDay startTime; e = minuteOfDay endTime
      in if e \<le> s then e + 24 * 60 - s else e - s)"

text \<open>Local midnight of the booking date, and the start and the resolved end of the
  requested range as instants.\<close>

definition midnightOf :: "bookingDateArg \<Rightarrow> date" where
  "midnightOf bookingDate = (timeValue bookingDate div msPerDay) * msPerDay"

definition startDateTimeOf :: "bookingDateArg \<Rightarrow> int \<times> int \<Rightarrow> date" where
  "startDateTimeOf bookingDate startTime =
     midnightOf bookingDate + minuteOfDay startTime * msPerMinute"

definition endDateTimeOf :: "bookingDateArg \<Rightarrow> int \<times> int \<Rightarrow> int \<times> int \<Rightarrow> date" where
  "endDateTimeOf bookingDate startTime endTime =
     startDateTimeOf bookingDate startTime + resolvedMinutes startTime endTime * msPerMinute"



text \<open>
  \<open>walk rules e cur segs\<close>: the entries \<open>segs\<close> are the ones the loop pushes when it
  runs from \<open>cur\<close> to the end \<open>e\<close> without an error. It is used to state what the loop
  has pushed when it returns.
\<close>

fun walk :: "pricingRule list \<Rightarrow> date \<Rightarrow> date \<Rightarrow> breakdownEntry list \<Rightarrow> bool" where
  "walk rules e cur [] = (\<not> cur < e)"
| "walk rules e cur (s # ss) =
     (cur < e \<and>
      (case getPrice rules cur (getHours cur) of
         Inl err \<Rightarrow> False
       | Inr (p, dt, ts) \<Rightarrow> s = mkEntry e cur p dt ts) \<and>
      walk rules e (slotEndOf e cur) ss)"


section \<open>Bookings\<close>

datatype bookingStatus = Pending | Confirmed | Blocked | Cancelled | Completed

datatype paymentStatus = PaymentPending | PaymentPartial | PaymentPaid

datatype creator = CreatedByCustomer | CreatedByAdmin

text \<open>
  A document of the \<^verbatim>\<open>Booking\<close> collection, with the fields the controllers write
  (\<open>bkStatus\<close> is the field \<^verbatim>\<open>status\<close>, and so on). The schema file is not among the
  sources; the status values are the five the controllers test and assign, which are
  also the five the spec lists.
\<close>

record booking =
  bkId :: nat
  bkCustomer :: "nat option"
  bkCourt :: nat
  bkDate :: date
  bkStartTime :: "int \<times> int"
  bkEndTime :: "int \<times> int"
  bkDurationHours :: rat
  bkTotalPrice :: rat
  bkPricingBreakdown :: "breakdownEntry list"
  bkDiscountAmount :: rat
  bkFinalPrice :: rat
  bkPaymentStatus :: paymentStatus
  bkAmountPaid :: rat
  bkStatus :: bookingStatus
  bkNotes :: "string option"
  bkCreatedBy :: creator

text \<open>JavaScript truthiness of an optional string: present and not empty.\<close>

definition truthy :: "string option \<Rightarrow> bool" where
  "truthy s = (case s of None \<Rightarrow> False | Some v \<Rightarrow> v \<noteq> [])"

text \<open>A collection is the list of its documents, in insertion order.\<close>

definition findBookingById :: "booking list \<Rightarrow> nat \<Rightarrow> booking option" where
  "findBookingById bs ident = find (\<lambda>b. bkId b = ident) bs"

text \<open>\<^verbatim>\<open>booking.save()\<close>: the stored document with the same id is replaced.\<close>

definition saveBooking :: "booking list \<Rightarrow> booking \<Rightarrow> booking list" where
  "saveBooking bs b = map (\<lambda>x. if bkId x = bkId b then b else x) bs"

text \<open>
  \<^verbatim>\<open>updateBookingStatus\<close> returns the response (the saved document or the error thrown)
  and the collection after the request.
\<close>

definition updateBookingStatus ::
  "booking list \<Rightarrow> nat \<Rightarrow> bookingStatus option \<Rightarrow> string option
     \<Rightarrow> (error + booking) \<times> booking list" where
  "updateBookingStatus bs ident status notes =
     (case status of
        None \<Rightarrow> (Inl (BadRequestError ''Status is required''), bs)
      | Some st \<Rightarrow>
          (case findBookingById bs ident of
             None \<Rightarrow> (Inl (NotFoundError ''Booking''), bs)
           | Some b \<Rightarrow>
               if bkStatus b = Cancelled then
                 (Inl (BadRequestError ''Cannot update status of cancelled booking''), bs)
               else if bkStatus b = Completed then
                 (Inl (BadRequestError ''Cannot update status of completed booking''), bs)
               else
                 let b1 = b\<lparr>bkStatus := st\<rparr>;
                     b2 = (if truthy notes then b1\<lparr>bkNotes := notes\<rparr> else b1)
                 in (Inr b2, saveBooking bs b2)))"

definition cancelBooking ::
  "booking list \<Rightarrow> nat \<Rightarrow> string option \<Rightarrow> (error + booking) \<times> booking list" where
  "cancelBooking bs ident reason =
     (case findBookingById bs ident of
        None \<Rightarrow> (Inl (NotFoundError ''Booking''), bs)
      | Some b \<Rightarrow>
          if bkStatus b = Cancelled then
            (Inl (BadRequestError ''Booking is already cancelled''), bs)
          else if bkStatus b = Completed then
            (Inl (BadRequestError ''Cannot cancel completed booking''), bs)
          else
            let b1 = b\<lparr>bkStatus := Cancelled\<rparr>;
                b2 = (case reason of
                        None \<Rightarrow> b1
                      | Some r \<Rightarrow>
                          if r = [] then b1
                          else b1\<lparr>bkNotes :=
                                 Some (case bkNotes b1 of
                                         None \<Rightarrow> ''Cancellation reason: '' @ r
                                       | Some n \<Rightarrow>
                                           if n = [] then ''Cancellation reason: '' @ r
                                           else n @ [CHR 0x0A] @ ''Cancellation reason: '' @ r)\<rparr>)
            in (Inr b2, saveBooking bs b2))"

section \<open>Manual bookings\<close>

datatype courtStatus = Active | Inactive | Maintenance

record court =
  courtId :: nat
  courtName :: string
  courtDescription :: string
  courtFeatures :: "string list"
  courtImageUrl :: "string option"
  courtStatus :: courtStatus

record customer =
  custId :: nat
  custName :: string
  custPhone :: string
  custEmail :: "string option"
  custTotalBookings :: int

record database =
  courts :: "court list"
  customers :: "customer list"
  bookings :: "booking list"
  pricingRules :: "pricingRule list"

text \<open>The body of a manual-booking request (\<^verbatim>\<open>CreateManualBookingDTO\<close>).\<close>

record manualBookingDTO =
  reqCourtId :: "nat option"
  reqBookingDate :: "bookingDateArg option"
  reqStartTime :: "(int \<times> int) option"
  reqEndTime :: "(int \<times> int) option"
  reqCustomerPhone :: "string option"
  reqCustomerName :: "string option"
  reqCustomerEmail :: "string option"
  reqNotes :: "string option"
  reqIsBlocked :: bool

text \<open>
  What the controller calls but the sources do not contain: the three functions of
  \<^verbatim>\<open>BookingService\<close> (a validation that throws or not, the availability answer
  for the stored bookings, the duration in hours) and the validators of the
  \<^verbatim>\<open>Customer\<close> and \<^verbatim>\<open>Booking\<close> schemas run by \<^verbatim>\<open>create\<close>. They are parameters
  of the model.
\<close>

record collaborators =
  validateBookingTime :: "int \<times> int \<Rightarrow> int \<times> int \<Rightarrow> date \<Rightarrow> error option"
  checkAvailability :: "booking list \<Rightarrow> nat \<Rightarrow> date \<Rightarrow> int \<times> int \<Rightarrow> int \<times> int \<Rightarrow> bool"
  calculateDuration :: "int \<times> int \<Rightarrow> int \<times> int \<Rightarrow> rat"
  customerSchemaError :: "customer \<Rightarrow> error option"
  bookingSchemaError :: "booking \<Rightarrow> error option"

text \<open>The calls a request makes to the collections and services, in order.\<close>

datatype call =
    CourtFindById
  | ValidateBookingTime
  | CheckAvailability
  | CalculateDuration
  | CustomerFindOne
  | CustomerCreate
  | CalculateBookingPrice
  | CustomerFindByIdAndUpdate
  | BookingCreate

text \<open>A new document gets an id no stored document has.\<close>

definition nextId :: "nat list \<Rightarrow> nat" where
  "nextId ids = Suc (foldr max ids 0)"

definition findCourtById :: "court list \<Rightarrow> nat \<Rightarrow> court option" where
  "findCourtById cs ident = find (\<lambda>c. courtId c = ident) cs"

definition findCustomerByPhone :: "customer list \<Rightarrow> string \<Rightarrow> customer option" where
  "findCustomerByPhone cs p = find (\<lambda>c. custPhone c = p) cs"

text \<open>\<^verbatim>\<open>Customer.findByIdAndUpdate(id, { $inc: { totalBookings: 1 } })\<close>\<close>

definition incTotalBookings :: "customer list \<Rightarrow> nat \<Rightarrow> customer list" where
  "incTotalBookings cs ident =
     map (\<lambda>c. if custId c = ident then c\<lparr>custTotalBookings := custTotalBookings c + 1\<rparr> else c) cs"

text \<open>
  The block \<^verbatim>\<open>if (!isBlocked) { ... }\<close> of \<^verbatim>\<open>createManualBooking\<close>: find or create
  the customer, price the booking, count it for the customer. It yields the values
  assigned to \<^verbatim>\<open>customerId\<close>, \<^verbatim>\<open>totalPrice\<close> and \<^verbatim>\<open>pricingBreakdown\<close>.
\<close>

definition customerAndPricing ::
  "collaborators \<Rightarrow> database \<Rightarrow> string \<Rightarrow> string \<Rightarrow> string option
     \<Rightarrow> bookingDateArg \<Rightarrow> int \<times> int \<Rightarrow> int \<times> int
     \<Rightarrow> (error + (nat option \<times> rat \<times> breakdownEntry list)) \<times> database \<times> call list" where
  "customerAndPricing svc db phone name email bookingDate startTime endTime =
     (let (found, db1, calls1) =
            (case findCustomerByPhone (customers db) phone of
               Some c \<Rightarrow> (Inr c, db, [CustomerFindOne])
             | None \<Rightarrow>
                 let c = \<lparr> custId = nextId (map custId (customers db)), custName = name,
                           custPhone = phone, custEmail = email, custTotalBookings = 0 \<rparr>
                 in case customerSchemaError svc c of
                      Some e \<Rightarrow> (Inl e, db, [CustomerFindOne, CustomerCreate])
                    | None \<Rightarrow> (Inr c, db\<lparr>customers := customers db @ [c]\<rparr>,
                                [CustomerFindOne, CustomerCreate]))
      in case found of
           Inl e \<Rightarrow> (Inl e, db1, calls1)
         | Inr c \<Rightarrow>
             (case fst (calculateBookingPrice (pricingRules db1) bookingDate startTime endTime) of
                Inl e \<Rightarrow> (Inl e, db1, calls1 @ [CalculateBookingPrice])
              | Inr pricingResult \<Rightarrow>
                  (Inr (Some (custId c), finalPrice pricingResult, breakdown pricingResult),
                   db1\<lparr>customers := incTotalBookings (customers db1) (custId c)\<rparr>,
                   calls1 @ [CalculateBookingPrice, CustomerFindByIdAndUpdate])))"

text \<open>The closing \<^verbatim>\<open>Booking.create({ ... })\<close> of \<^verbatim>\<open>createManualBooking\<close>.\<close>

definition manualBookingDocument ::
  "database \<Rightarrow> manualBookingDTO \<Rightarrow> nat \<Rightarrow> date \<Rightarrow> int \<times> int \<Rightarrow> int \<times> int \<Rightarrow> rat
     \<Rightarrow> nat option \<Rightarrow> rat \<Rightarrow> breakdownEntry list \<Rightarrow> booking" where
  "manualBookingDocument db req cid dateObj startTime endTime durationHours
       customerId totalPrice pricingBreakdown =
     \<lparr> bkId = nextId (map bkId (bookings db)),
       bkCustomer = customerId,
       bkCourt = cid,
       bkDate = dateObj,
       bkStartTime = startTime,
       bkEndTime = endTime,
       bkDurationHours = durationHours,
       bkTotalPrice = totalPrice,
       bkPricingBreakdown = pricingBreakdown,
       bkDiscountAmount = 0,
       bkFinalPrice = totalPrice,
       bkPaymentStatus = (if reqIsBlocked req then PaymentPaid else PaymentPending),
       bkAmountPaid = 0,
       bkStatus = (if reqIsBlocked req then Blocked else Pending),
       bkNotes = reqNotes req,
       bkCreatedBy = CreatedByAdmin \<rparr>"

definition createManualBooking ::
  "collaborators \<Rightarrow> database \<Rightarrow> manualBookingDTO
     \<Rightarrow> (error + booking) \<times> database \<times> call list" where
  "createManualBooking svc db req =
     (if reqCourtId req = None \<or> reqBookingDate req = None
         \<or> reqStartTime req = None \<or> reqEndTime req = None
      then (Inl (BadRequestError ''Court, date, and time fields are required''), db, [])
      else if \<not> reqIsBlocked req
              \<and> (\<not> truthy (reqCustomerPhone req) \<or> \<not> truthy (reqCustomerName req))
      then (Inl (BadRequestError ''Customer information is required for bookings''), db, [])
      else
        let cid = the (reqCourtId req);
            bookingDate = the (reqBookingDate req);
            startTime = the (reqStartTime req);
            endTime = the (reqEndTime req)
        in
        if findCourtById (courts db) cid = None
        then (Inl (NotFoundError ''Court''), db, [CourtFindById])
        else
          let dateObj = setHours4 (timeValue bookingDate) 0 0 0 0 in
          if validateBookingTime svc startTime endTime dateObj \<noteq> None
          then (Inl (the (validateBookingTime svc startTime endTime dateObj)), db,
                [CourtFindById, ValidateBookingTime])
          else if \<not> checkAvailability svc (bookings db) cid dateObj startTime endTime
          then (Inl (ConflictError ''Time slot is not available''), db,
                [CourtFindById, ValidateBookingTime, CheckAvailability])
          else
            let durationHours = calculateDuration svc startTime endTime;
                calls0 = [CourtFindById, ValidateBookingTime, CheckAvailability,
                          CalculateDuration];
                (priced, db1, calls1) =
                  (if \<not> reqIsBlocked req then
                     customerAndPricing svc db (the (reqCustomerPhone req))
                       (the (reqCustomerName req)) (reqCustomerEmail req)
                       bookingDate startTime endTime
                   else (Inr (None, 0, []), db, []))
            in case priced of
                 Inl e \<Rightarrow> (Inl e, db1, calls0 @ calls1)
               | Inr (customerId, totalPrice, pricingBreakdown) \<Rightarrow>
                   (let b = manualBookingDocument db1 req cid dateObj startTime endTime
                              durationHours customerId totalPrice pricingBreakdown
                    in if bookingSchemaError svc b \<noteq> None
                       then (Inl (the (bookingSchemaError svc b)), db1,
                             calls0 @ calls1 @ [BookingCreate])
                       else (Inr b, db1\<lparr>bookings := bookings db1 @ [b]\<rparr>,
                             calls0 @ calls1 @ [BookingCreate])))"

section \<open>Courts\<close>














section \<open>Concrete data\<close>

text \<open>Concrete data for the instances below.\<close>

definition sampleBooking :: booking where
  "sampleBooking =
     \<lparr> bkId = 1, bkCustomer = Some 1, bkCourt = 1, bkDate = 0,
       bkStartTime = (14, 0), bkEndTime = (16, 0), bkDurationHours = 2,
       bkTotalPrice = 160, bkPricingBreakdown = [], bkDiscountAmount = 0,
       bkFinalPrice = 160, bkPaymentStatus = PaymentPending, bkAmountPaid = 0,
       bkStatus = Pending, bkNotes = None, bkCreatedBy = CreatedByCustomer \<rparr>"

definition sampleService :: collaborators where
  "sampleService =
     \<lparr> validateBookingTime = (\<lambda>s e d. None),
       checkAvailability = (\<lambda>bs c d s e. True),
       calculateDuration = (\<lambda>s e. of_int (resolvedMinutes s e) / 60),
       customerSchemaError = (\<lambda>c. None),
       bookingSchemaError = (\<lambda>b. None) \<rparr>"

definition sampleDatabase :: database where
  "sampleDatabase =
     \<lparr> courts = [\<lparr> courtId = 1, courtName = ''Court 1'', courtDescription = ''Net 1'',
                    courtFeatures = [], courtImageUrl = None, courtStatus = Active \<rparr>],
       customers = [],
       bookings = [],
       pricingRules = [] \<rparr>"

definition sampleBlockRequest :: manualBookingDTO where
  "sampleBlockRequest =
     \<lparr> reqCourtId = Some 1, reqBookingDate = Some (DateString 0),
       reqStartTime = Some (10, 0), reqEndTime = Some (12, 0),
       reqCustomerPhone = Some ''0512345678'', reqCustomerName = None,
       reqCustomerEmail = None, reqNotes = Some ''maintenance'', reqIsBlocked = True \<rparr>"

definition sampleBlockedBooking :: booking where
  "sampleBlockedBooking =
     \<lparr> bkId = 1, bkCustomer = None, bkCourt = 1, bkDate = 0,
       bkStartTime = (10, 0), bkEndTime = (12, 0), bkDurationHours = 2,
       bkTotalPrice = 0, bkPricingBreakdown = [], bkDiscountAmount = 0,
       bkFinalPrice = 0, bkPaymentStatus = PaymentPaid, bkAmountPaid = 0,
       bkStatus = Blocked, bkNotes = Some ''maintenance'', bkCreatedBy = CreatedByAdmin \<rparr>"



section \<open>Lemmas\<close>

subsection \<open>The pricing loop\<close>

lemma nextHourOf_eq: "nextHourOf cur = cur + msPerHour"
proof -
  have d: "msPerDay = 24 * msPerHour"
    by (simp add: msPerDay_def msPerHour_def)
  have "cur mod msPerDay = (cur mod msPerDay) div msPerHour * msPerHour
          + (cur mod msPerDay) mod msPerHour"
    by simp
  moreover have "(cur mod msPerDay) mod msPerHour = cur mod msPerHour"
    unfolding d by (simp add: mod_mod_cancel)
  moreover have "cur = cur div msPerDay * msPerDay + cur mod msPerDay"
    by simp
  ultimately have "cur = cur div msPerDay * msPerDay
      + (cur mod msPerDay) div msPerHour * msPerHour + cur mod msPerHour"
    by linarith
  then show ?thesis
    unfolding nextHourOf_def setHours1_def getHours_def
    by (simp add: algebra_simps)
qed

lemma slotEndOf_gt: "cur < endDateTime \<Longrightarrow> cur < slotEndOf endDateTime cur"
  by (simp add: slotEndOf_def nextHourOf_eq msPerHour_def Let_def)

lemma slotEndOf_le: "cur < endDateTime \<Longrightarrow> slotEndOf endDateTime cur \<le> endDateTime"
  by (simp add: slotEndOf_def Let_def)

lemma priceLoop_done:
  "\<not> cur < e \<Longrightarrow> priceLoop rules e cur tp bd = Inr (tp, bd)"
  by (simp add: priceLoop.simps)

lemma priceLoop_step:
  "cur < e \<Longrightarrow> getPrice rules cur (getHours cur) = Inr (p, dt, ts) \<Longrightarrow>
   priceLoop rules e cur tp bd =
     priceLoop rules e (slotEndOf e cur) (tp + p * slotDurationOf e cur)
       (bd @ [mkEntry e cur p dt ts])"
  by (subst priceLoop.simps) simp

lemma priceLoop_fail:
  "cur < e \<Longrightarrow> getPrice rules cur (getHours cur) = Inl err \<Longrightarrow>
   priceLoop rules e cur tp bd = Inl err"
  by (subst priceLoop.simps) simp

lemma priceLoop_walk:
  "priceLoop rules e cur tp bd = Inr (tp', bd') \<Longrightarrow>
   \<exists>segs. bd' = bd @ segs \<and> tp' = tp + sum_list (map slotPrice segs) \<and> walk rules e cur segs"
proof (induction rules e cur tp bd rule: priceLoop.induct)
  case (1 rules e cur tp bd)
  show ?case
  proof (cases "cur < e")
    case False
    with "1.prems" show ?thesis by (simp add: priceLoop_done)
  next
    case True
    show ?thesis
    proof (cases "getPrice rules cur (getHours cur)")
      case (Inl err)
      with True "1.prems" show ?thesis by (simp add: priceLoop_fail)
    next
      case (Inr x)
      obtain p dt ts where x: "x = (p, dt, ts)" by (cases x) auto
      from Inr x have gp: "getPrice rules cur (getHours cur) = Inr (p, dt, ts)" by simp
      from "1.prems" have "priceLoop rules e (slotEndOf e cur) (tp + p * slotDurationOf e cur)
          (bd @ [mkEntry e cur p dt ts]) = Inr (tp', bd')"
        by (simp add: priceLoop_step [OF True gp])
      from "1.IH" [OF True gp refl refl this]
      obtain segs where s: "bd' = (bd @ [mkEntry e cur p dt ts]) @ segs"
        "tp' = tp + p * slotDurationOf e cur + sum_list (map slotPrice segs)"
        "walk rules e (slotEndOf e cur) segs" by blast
      have "bd' = bd @ (mkEntry e cur p dt ts # segs)" using s(1) by simp
      moreover have "tp' = tp + sum_list (map slotPrice (mkEntry e cur p dt ts # segs))"
        using s(2) by (simp add: mkEntry_def)
      moreover have "walk rules e cur (mkEntry e cur p dt ts # segs)"
        using True gp s(3) by simp
      ultimately show ?thesis by blast
    qed
  qed
qed

lemma priceLoop_Inl:
  "priceLoop rules e cur tp bd = Inl err \<Longrightarrow>
   \<exists>dt ts. err = ruleNotFound dt ts \<and> findOneRule rules dt ts = None"
proof (induction rules e cur tp bd rule: priceLoop.induct)
  case (1 rules e cur tp bd)
  show ?case
  proof (cases "cur < e")
    case False
    with "1.prems" show ?thesis by (simp add: priceLoop_done)
  next
    case True
    show ?thesis
    proof (cases "getPrice rules cur (getHours cur)")
      case (Inl err')
      with True "1.prems" have "err' = err" by (simp add: priceLoop_fail)
      with Inl show ?thesis
        by (auto simp: getPrice_def Let_def split: if_splits option.splits)
    next
      case (Inr x)
      obtain p dt ts where x: "x = (p, dt, ts)" by (cases x) auto
      from Inr x have gp: "getPrice rules cur (getHours cur) = Inr (p, dt, ts)" by simp
      from "1.prems" have "priceLoop rules e (slotEndOf e cur) (tp + p * slotDurationOf e cur)
          (bd @ [mkEntry e cur p dt ts]) = Inl err"
        by (simp add: priceLoop_step [OF True gp])
      from "1.IH" [OF True gp refl refl this] show ?thesis .
    qed
  qed
qed

lemma priceLoop_missing:
  "cur + int n * msPerHour < e \<Longrightarrow>
   getPrice rules (cur + int n * msPerHour) (getHours (cur + int n * msPerHour)) = Inl err \<Longrightarrow>
   \<exists>err'. priceLoop rules e cur tp bd = Inl err'"
proof (induction n arbitrary: cur tp bd)
  case 0
  then show ?case by (simp add: priceLoop_fail)
next
  case (Suc n)
  have h: "0 < msPerHour" by (simp add: msPerHour_def)
  have nn: "0 \<le> int n * msPerHour" using h by simp
  have ex: "cur + int (Suc n) * msPerHour = cur + msPerHour + int n * msPerHour"
    by (simp add: algebra_simps)
  have nx: "cur + msPerHour < e"
    using Suc.prems(1) nn unfolding ex by linarith
  then have lt: "cur < e" using h by linarith
  show ?case
  proof (cases "getPrice rules cur (getHours cur)")
    case (Inl a)
    then show ?thesis using lt by (simp add: priceLoop_fail)
  next
    case (Inr x)
    obtain p dt ts where x: "x = (p, dt, ts)" by (cases x) auto
    from Inr x have gp: "getPrice rules cur (getHours cur) = Inr (p, dt, ts)" by simp
    have se: "slotEndOf e cur = cur + msPerHour"
      using nx by (simp add: slotEndOf_def nextHourOf_eq)
    have eq: "cur + msPerHour + int n * msPerHour = cur + int (Suc n) * msPerHour"
      by (simp add: algebra_simps)
    have "\<exists>err'. priceLoop rules e (cur + msPerHour) (tp + p * slotDurationOf e cur)
        (bd @ [mkEntry e cur p dt ts]) = Inl err'"
      by (rule Suc.IH) (use Suc.prems in \<open>simp_all only: eq\<close>)
    then show ?thesis
      by (simp add: priceLoop_step [OF lt gp] se)
  qed
qed



lemma walk_entries:
  "walk rules e cur segs \<Longrightarrow> s \<in> set segs \<Longrightarrow>
   currentTime s < e \<and> cur \<le> currentTime s \<and>
   getPrice rules (currentTime s) (getHours (currentTime s)) = Inr (rate s, dayType s, timeSlot s) \<and>
   s = mkEntry e (currentTime s) (rate s) (dayType s) (timeSlot s)"
proof (induction segs arbitrary: cur)
  case Nil
  then show ?case by simp
next
  case (Cons a ss)
  from Cons.prems(1) obtain p dt ts where lt: "cur < e"
      and gp: "getPrice rules cur (getHours cur) = Inr (p, dt, ts)"
      and a: "a = mkEntry e cur p dt ts" and w: "walk rules e (slotEndOf e cur) ss"
    by (auto split: sum.splits)
  show ?case
  proof (cases "s = a")
    case True
    then show ?thesis using lt gp a by (simp add: mkEntry_def)
  next
    case False
    with Cons.prems(2) have "s \<in> set ss" by simp
    from Cons.IH [OF w this] slotEndOf_gt [OF lt] show ?thesis by simp
  qed
qed

lemma walk_slotEnd:
  "walk rules e cur segs \<Longrightarrow> s \<in> set segs \<Longrightarrow>
   slotEnd s = min (currentTime s + 3600000) e \<and> hour s = hourLabel (currentTime s) (slotEnd s)"
proof -
  assume w: "walk rules e cur segs" and s: "s \<in> set segs"
  from walk_entries [OF w s]
  have m: "s = mkEntry e (currentTime s) (rate s) (dayType s) (timeSlot s)" by simp
  have a: "slotEnd s = slotEndOf e (currentTime s)"
    and b: "hour s = hourLabel (currentTime s) (slotEndOf e (currentTime s))"
    by (subst m, simp add: mkEntry_def)+
  have "slotEndOf e (currentTime s) = min (currentTime s + 3600000) e"
    by (simp add: slotEndOf_def nextHourOf_eq msPerHour_def Let_def min_def)
  with a b show ?thesis by simp
qed

lemma walk_nth:
  "walk rules e cur segs \<Longrightarrow> i < length segs \<Longrightarrow>
   currentTime (segs ! i) = cur + int i * msPerHour"
proof (induction segs arbitrary: cur i)
  case Nil
  then show ?case by simp
next
  case (Cons a ss)
  from Cons.prems(1) obtain p dt ts where lt: "cur < e"
      and a: "a = mkEntry e cur p dt ts" and w: "walk rules e (slotEndOf e cur) ss"
    by (auto split: sum.splits)
  show ?case
  proof (cases i)
    case 0
    then show ?thesis by (simp add: a mkEntry_def)
  next
    case (Suc j)
    with Cons.prems(2) have j: "j < length ss" by simp
    have "ss \<noteq> []" using j by auto
    then have "slotEndOf e cur < e" using w by (cases ss) auto
    then have se: "slotEndOf e cur = cur + msPerHour"
      by (auto simp: slotEndOf_def nextHourOf_eq Let_def split: if_splits)
    from Cons.IH [OF w j] show ?thesis
      by (simp add: Suc se algebra_simps)
  qed
qed

lemma walk_length:
  "walk rules e cur segs \<Longrightarrow> cur \<le> e \<Longrightarrow>
   int (length segs) = (e - cur + msPerHour - 1) div msPerHour"
proof (induction segs arbitrary: cur)
  case Nil
  then have "e = cur" by simp
  then show ?case by (simp add: msPerHour_def)
next
  case (Cons a ss)
  from Cons.prems(1) obtain w: "walk rules e (slotEndOf e cur) ss" and lt: "cur < e"
    by (auto split: sum.splits)
  have ih: "int (length ss) = (e - slotEndOf e cur + msPerHour - 1) div msPerHour"
    using Cons.IH [OF w] slotEndOf_le [OF lt] by simp
  show ?case
  proof (cases "cur + msPerHour > e")
    case True
    then have "slotEndOf e cur = e" by (simp add: slotEndOf_def nextHourOf_eq)
    moreover have "(e - cur + msPerHour - 1) div msPerHour = 1"
      using True lt by (simp add: msPerHour_def)
    ultimately show ?thesis using ih by (simp add: msPerHour_def)
  next
    case False
    then have se: "slotEndOf e cur = cur + msPerHour" by (simp add: slotEndOf_def nextHourOf_eq)
    have "(e - cur + msPerHour - 1) div msPerHour = (e - (cur + msPerHour) + msPerHour - 1) div msPerHour + 1"
      by (simp add: msPerHour_def)
    then show ?thesis using ih se by simp
  qed
qed


subsection \<open>Validation of the requested range\<close>

lemma jsRemainder_minutes:
  assumes "0 \<le> k"
  shows "jsRemainder (of_int (k * msPerMinute) / of_int (1000 * 60)) 60 = of_int (k mod 60)"
proof -
  have x: "(of_int (k * msPerMinute) :: rat) / of_int (1000 * 60) = of_int k"
    by (simp add: msPerMinute_def)
  have nn: "\<not> (of_int k :: rat) / 60 < 0" using assms by simp
  have fl: "\<lfloor>(of_int k :: rat) / 60\<rfloor> = k div 60"
    using floor_divide_of_int_eq [of k 60, where ?'a = rat] by simp
  have "k mod 60 = k - 60 * (k div 60)" by (simp add: minus_mult_div_eq_mod)
  then have "(of_int (k mod 60) :: rat) = of_int (k - 60 * (k div 60))" by simp
  then have "(of_int k :: rat) - 60 * of_int (k div 60) = of_int (k mod 60)"
    by simp
  then show ?thesis
    unfolding x jsRemainder_def using nn fl by simp
qed

lemma calc_unfold:
  "fst (calculateBookingPrice rules bookingDate startTime endTime) =
     (let k = resolvedMinutes startTime endTime in
      if k < 60 then Inl minimumDurationError
      else if k mod 60 \<noteq> 0 \<and> k mod 60 \<noteq> 30 then Inl incrementError
      else case priceLoop rules (endDateTimeOf bookingDate startTime endTime)
                  (startDateTimeOf bookingDate startTime) 0 [] of
             Inl e \<Rightarrow> Inl e
           | Inr (totalPrice, bd) \<Rightarrow>
               Inr \<lparr> totalHours = of_int k / 60, breakdown = bd, finalPrice = totalPrice \<rparr>)"
proof -
  obtain sh sm where st: "startTime = (sh, sm)" by (cases startTime)
  obtain eh em where et: "endTime = (eh, em)" by (cases endTime)
  define dateObj where "dateObj = setHours4 (timeValue bookingDate) 0 0 0 0"
  define s where "s = setHours4 dateObj sh sm 0 0"
  define e0 where "e0 = setHours4 dateObj eh em 0 0"
  define e where "e = (if e0 \<le> s then setDateRel e0 1 else e0)"
  define k where "k = resolvedMinutes startTime endTime"
  have dm: "dateObj = midnightOf bookingDate"
    by (simp add: dateObj_def setHours4_def midnightOf_def)
  have dd: "dateObj div msPerDay * msPerDay = dateObj"
    by (simp add: dm midnightOf_def msPerDay_def)
  have s_eq: "s = startDateTimeOf bookingDate startTime"
    unfolding s_def setHours4_def dd
    by (simp add: startDateTimeOf_def dm st minuteOfDay_def
        msPerHour_def msPerMinute_def algebra_simps)
  have e0_eq: "e0 = midnightOf bookingDate + minuteOfDay endTime * msPerMinute"
    unfolding e0_def setHours4_def dd
    by (simp add: dm et minuteOfDay_def
        msPerHour_def msPerMinute_def algebra_simps)
  have le: "e0 \<le> s \<longleftrightarrow> minuteOfDay endTime \<le> minuteOfDay startTime"
    by (simp add: s_eq e0_eq startDateTimeOf_def msPerMinute_def)
  have e_eq: "e = endDateTimeOf bookingDate startTime endTime"
    unfolding e_def le
    by (simp add: endDateTimeOf_def resolvedMinutes_def Let_def s_eq [symmetric] e0_eq
        setDateRel_def startDateTimeOf_def msPerDay_def msPerMinute_def algebra_simps
        del: s_eq)
  have diff: "e - s = k * msPerMinute"
    by (simp add: e_eq s_eq endDateTimeOf_def k_def)
  have th: "(of_int (e - s) :: rat) / of_int (1000 * 60 * 60) = of_int k / 60"
    by (simp add: diff msPerMinute_def)
  have lt: "(of_int k :: rat) / 60 < 1 \<longleftrightarrow> k < 60"
    by (simp add: divide_less_eq)
  have rem: "0 \<le> k \<Longrightarrow> jsRemainder (of_int (e - s) / of_int (1000 * 60)) 60 = of_int (k mod 60)"
    unfolding diff by (rule jsRemainder_minutes)
  have c: "fst (calculateBookingPrice rules bookingDate startTime endTime) =
     (let totalHrs = of_int (e - s) / of_int (1000 * 60 * 60);
          minutes = jsRemainder (of_int (e - s) / of_int (1000 * 60)) 60
      in if totalHrs < 1 then Inl minimumDurationError
        else if minutes \<noteq> 0 \<and> minutes \<noteq> 30 then Inl incrementError
        else
          (case priceLoop rules e s 0 [] of
             Inl err \<Rightarrow> Inl err
           | Inr (totalPrice, bd) \<Rightarrow>
               Inr \<lparr> totalHours = totalHrs, breakdown = bd, finalPrice = totalPrice \<rparr>))"
    unfolding calculateBookingPrice_def st et e_def e0_def s_def dateObj_def
    by (simp add: Let_def split: sum.splits prod.splits)
  show ?thesis
  proof (cases "k < 60")
    case True
    then show ?thesis unfolding c th Let_def k_def using lt by (simp add: k_def)
  next
    case False
    then have k0: "0 \<le> k" by simp
    have r30: "(of_int (k mod 60) :: rat) = 30 \<longleftrightarrow> k mod 60 = 30"
      using of_int_eq_iff [of "k mod 60" 30, where ?'a = rat] by simp
    have r0: "(of_int (k mod 60) :: rat) = 0 \<longleftrightarrow> k mod 60 = 0"
      by simp
    show ?thesis unfolding c Let_def rem [OF k0] th r30 r0 k_def using False lt
      by (simp add: k_def s_eq e_eq)
  qed
qed


lemma mod30_nonzero:
  assumes "(k::int) mod 30 \<noteq> 0"
  shows "k mod 60 \<noteq> 0 \<and> k mod 60 \<noteq> 30"
proof -
  have "k mod 60 mod 30 = k mod 30" by (simp add: mod_mod_cancel)
  with assms show ?thesis by auto
qed

lemma mod30_zero:
  assumes "(k::int) mod 30 = 0"
  shows "k mod 60 = 0 \<or> k mod 60 = 30"
proof -
  have m: "k mod 60 mod 30 = k mod 30" by (simp add: mod_mod_cancel)
  have b: "0 \<le> k mod 60" "k mod 60 < 60" by simp_all
  from assms m have "30 dvd k mod 60" by (simp add: mod_eq_0_iff_dvd)
  then obtain q where q: "k mod 60 = 30 * q" by (rule dvdE)
  with b have "0 \<le> q" "q < 2" by simp_all
  then have "q = 0 \<or> q = 1" by auto
  with q show ?thesis by auto
qed

lemma calc_short:
  assumes "resolvedMinutes startTime endTime < 60"
  shows "fst (calculateBookingPrice rules bookingDate startTime endTime) = Inl minimumDurationError"
  unfolding calc_unfold Let_def using assms by (simp only: if_True)

lemma calc_increment:
  assumes "60 \<le> resolvedMinutes startTime endTime"
    and "resolvedMinutes startTime endTime mod 30 \<noteq> 0"
  shows "fst (calculateBookingPrice rules bookingDate startTime endTime) = Inl incrementError"
proof -
  let ?k = "resolvedMinutes startTime endTime"
  have a: "\<not> ?k < 60" using assms(1) by (simp only: not_less)
  have b: "?k mod 60 \<noteq> 0 \<and> ?k mod 60 \<noteq> 30" using assms(2) by (rule mod30_nonzero)
  show ?thesis unfolding calc_unfold Let_def using a b by simp
qed

lemma calc_loop:
  assumes "60 \<le> resolvedMinutes startTime endTime"
    and "resolvedMinutes startTime endTime mod 30 = 0"
  shows "fst (calculateBookingPrice rules bookingDate startTime endTime) =
     (case priceLoop rules (endDateTimeOf bookingDate startTime endTime)
                  (startDateTimeOf bookingDate startTime) 0 [] of
        Inl e \<Rightarrow> Inl e
      | Inr (totalPrice, bd) \<Rightarrow>
          Inr \<lparr> totalHours = of_int (resolvedMinutes startTime endTime) / 60,
                breakdown = bd, finalPrice = totalPrice \<rparr>)"
proof -
  let ?k = "resolvedMinutes startTime endTime"
  have a: "\<not> ?k < 60" using assms(1) by (simp only: not_less)
  have b: "\<not> (?k mod 60 \<noteq> 0 \<and> ?k mod 60 \<noteq> 30)"
    using mod30_zero [OF assms(2)] by blast
  show ?thesis unfolding calc_unfold Let_def using a b by (simp only: if_False)
qed

lemma calc_Inr:
  assumes "fst (calculateBookingPrice rules bookingDate startTime endTime) = Inr r"
  shows "60 \<le> resolvedMinutes startTime endTime"
    and "resolvedMinutes startTime endTime mod 30 = 0"
    and "totalHours r = of_int (resolvedMinutes startTime endTime) / 60"
    and "finalPrice r = sum_list (map slotPrice (breakdown r))"
    and "walk rules (endDateTimeOf bookingDate startTime endTime)
           (startDateTimeOf bookingDate startTime) (breakdown r)"
proof -
  let ?k = "resolvedMinutes startTime endTime"
  let ?e = "endDateTimeOf bookingDate startTime endTime"
  let ?s = "startDateTimeOf bookingDate startTime"
  show k60: "60 \<le> ?k"
  proof (rule ccontr)
    assume "\<not> 60 \<le> ?k"
    then have "?k < 60" by simp
    from calc_short [OF this, of rules bookingDate] assms show False by simp
  qed
  show k30: "?k mod 30 = 0"
  proof (rule ccontr)
    assume "?k mod 30 \<noteq> 0"
    from calc_increment [OF k60 this, of rules bookingDate] assms show False by simp
  qed
  from assms calc_loop [OF k60 k30, of rules bookingDate]
  have c: "(case priceLoop rules ?e ?s 0 [] of
        Inl e \<Rightarrow> Inl e
      | Inr (totalPrice, bd) \<Rightarrow>
          Inr \<lparr> totalHours = of_int ?k / 60, breakdown = bd, finalPrice = totalPrice \<rparr>) = Inr r"
    by simp
  then obtain tp bd where pl: "priceLoop rules ?e ?s 0 [] = Inr (tp, bd)"
      and r: "r = \<lparr> totalHours = of_int ?k / 60, breakdown = bd, finalPrice = tp \<rparr>"
    by (cases "priceLoop rules ?e ?s 0 []") auto
  from r show "totalHours r = of_int ?k / 60" by simp
  from priceLoop_walk [OF pl] r
  show "finalPrice r = sum_list (map slotPrice (breakdown r))"
    and "walk rules ?e ?s (breakdown r)" by auto
qed

lemma steps_of_minutes:
  assumes "0 \<le> (k::int)"
  shows "(k * 60000 + 3600000 - 1) div 3600000 = (k + 59) div 60"
proof -
  have "k * 60000 + 3600000 - 1 = 59999 + (k + 59) * 60000" by simp
  then have "(k * 60000 + 3600000 - 1) div 60000 = k + 59"
    by (simp only: div_mult_self1 [of 60000 59999 "k + 59"])
  moreover have "(k * 60000 + 3600000 - 1) div (60000 * 60) = (k * 60000 + 3600000 - 1) div 60000 div 60"
    by (rule zdiv_zmult2_eq) simp
  ultimately show ?thesis by simp
qed

subsection \<open>Instants of a given day\<close>

lemma midnightOf_div: "midnightOf b div 86400000 = timeValue b div 86400000"
  by (simp add: midnightOf_def msPerDay_def)


lemma midnightOf_mod_hour: "midnightOf b mod 3600000 = 0"
proof -
  have "midnightOf b = (timeValue b div 86400000 * 24) * 3600000"
    by (simp add: midnightOf_def msPerDay_def)
  then show ?thesis by (simp del: mult.commute)
qed


lemma getMinutes_offset:
  "getMinutes (midnightOf b + off) = (off mod 3600000) div 60000"
proof -
  have "(midnightOf b + off) mod 3600000 = off mod 3600000"
    using midnightOf_mod_hour [of b] by (simp add: mod_add_left_eq [symmetric] del: mod_add_left_eq)
  then show ?thesis by (simp add: getMinutes_def msPerMinute_def msPerHour_def)
qed





lemma getMinutes_plus_hours: "getMinutes (t + i * 3600000) = getMinutes t"
  by (simp add: getMinutes_def msPerHour_def)

lemma startDateTimeOf_offset:
  "startDateTimeOf b (h, m) = midnightOf b + (h * 3600000 + m * 60000)"
  by (simp add: startDateTimeOf_def minuteOfDay_def msPerMinute_def algebra_simps)


lemma getMinutes_start:
  "getMinutes (startDateTimeOf bookingDate (h, m)) = m mod 60"
proof -
  have "(h * 3600000 + m * 60000) mod 3600000 = (m * 60000) mod (60 * 60000)"
    by simp
  also have "\<dots> = (m mod 60) * 60000"
    by (simp only: mod_mult_mult2)
  finally show ?thesis
    by (simp add: startDateTimeOf_offset getMinutes_offset)
qed







subsection \<open>The date argument\<close>

lemma calculateBookingPrice_argument:
  "snd (calculateBookingPrice rules b startTime endTime) =
     (case b of DateObject t \<Rightarrow> DateObject (setHours4 t 0 0 0 0) | DateString t \<Rightarrow> DateString t)"
  by (cases b)
     (simp_all add: calculateBookingPrice_def Let_def timeValue_def
        split: prod.splits sum.splits)

lemma midnightOf_argument:
  "midnightOf (snd (calculateBookingPrice rules b startTime endTime)) = midnightOf b"
  unfolding calculateBookingPrice_argument
  by (cases b) (simp_all add: midnightOf_def timeValue_def setHours4_def msPerDay_def)

lemma calculateBookingPrice_repeat:
  "fst (calculateBookingPrice rules (snd (calculateBookingPrice rules b startTime endTime))
          startTime endTime) =
   fst (calculateBookingPrice rules b startTime endTime)"
  by (simp only: calc_unfold startDateTimeOf_def endDateTimeOf_def midnightOf_argument)

subsection \<open>The court collection\<close>








section \<open>The claims\<close>



text \<open>
  Claim C2, as the code has it. The loop steps by one hour from the entry's own start
  (\<^verbatim>\<open>setHours(getHours() + 1)\<close> keeps the minutes), not to the next clock-hour boundary.
  Whenever the calculation succeeds, entry number \<open>i\<close> starts \<open>i\<close> whole hours after
  the requested start and ends one hour later or at the resolved end, whichever comes
  first; so every entry starts at the minute of the hour at which the request starts
  (on a clock-hour boundary exactly when that minute is 00). Each entry carries the rate,
  day type and time slot that \<open>getPrice\<close> returns for the hour at the entry's start,
  and its label is formatted from its start and end. Entries are never merged: there is
  one entry per started hour of the duration, whatever the rates are.
\<close>

theorem C2_hour_steps:
  assumes "fst (calculateBookingPrice rules bookingDate startTime endTime) = Inr r"
    and "i < length (breakdown r)"
  shows "currentTime (breakdown r ! i) =
           startDateTimeOf bookingDate startTime + int i * (1000 * 60 * 60)
       \<and> slotEnd (breakdown r ! i) =
           min (currentTime (breakdown r ! i) + 1000 * 60 * 60)
               (startDateTimeOf bookingDate startTime
                  + resolvedMinutes startTime endTime * (1000 * 60))
       \<and> getMinutes (currentTime (breakdown r ! i)) = snd startTime mod 60
       \<and> getPrice rules (currentTime (breakdown r ! i)) (getHours (currentTime (breakdown r ! i)))
           = Inr (rate (breakdown r ! i), dayType (breakdown r ! i), timeSlot (breakdown r ! i))
       \<and> hour (breakdown r ! i) =
           hourLabel (currentTime (breakdown r ! i)) (slotEnd (breakdown r ! i))
       \<and> int (length (breakdown r)) = (resolvedMinutes startTime endTime + 59) div 60"
proof -
  let ?k = "resolvedMinutes startTime endTime"
  let ?e = "endDateTimeOf bookingDate startTime endTime"
  let ?s = "startDateTimeOf bookingDate startTime"
  let ?x = "breakdown r ! i"
  note f = calc_Inr [OF assms(1)]
  have e: "?e = ?s + ?k * (1000 * 60)"
    by (simp add: endDateTimeOf_def msPerMinute_def)
  have le: "?s \<le> ?e" using f(1) unfolding e by simp
  have mem: "?x \<in> set (breakdown r)" using assms(2) by simp
  have c1: "currentTime ?x = ?s + int i * (1000 * 60 * 60)"
    using walk_nth [OF f(5) assms(2)] by (simp add: msPerHour_def)
  have c2: "slotEnd ?x = min (currentTime ?x + 1000 * 60 * 60) (?s + ?k * (1000 * 60))"
    and c5: "hour ?x = hourLabel (currentTime ?x) (slotEnd ?x)"
    using walk_slotEnd [OF f(5) mem] unfolding e by simp_all
  obtain h m where st: "startTime = (h, m)" by (cases startTime)
  have c3: "getMinutes (currentTime ?x) = snd startTime mod 60"
    using getMinutes_plus_hours [of ?s "int i"] getMinutes_start [of bookingDate h m]
    unfolding c1 st by simp
  have c4: "getPrice rules (currentTime ?x) (getHours (currentTime ?x))
           = Inr (rate ?x, dayType ?x, timeSlot ?x)"
    using walk_entries [OF f(5) mem] by simp
  have "int (length (breakdown r)) = (?e - ?s + msPerHour - 1) div msPerHour"
    by (rule walk_length [OF f(5) le])
  also have "\<dots> = (?k * 60000 + 3600000 - 1) div 3600000"
    unfolding e by (simp add: msPerHour_def)
  also have "\<dots> = (?k + 59) div 60"
    using f(1) by (intro steps_of_minutes) simp
  finally have c6: "int (length (breakdown r)) = (?k + 59) div 60" .
  from c1 c2 c3 c4 c5 c6 show ?thesis by blast
qed

theorem C2_hour_steps_witness:
  "fst (calculateBookingPrice defaultRules (DateString 0) (14, 30) (16, 0)) =
     Inr \<lparr>totalHours = 3 / 2,
         breakdown =
           [\<lparr>hour = ''14:30-15:30'', rate = 80, dayType = Weekday,
               timeSlot = Day, currentTime = 52200000, slotEnd = 55800000,
               slotDuration = 1, slotPrice = 80\<rparr>,
            \<lparr>hour = ''15:30-16:00'', rate = 80, dayType = Weekday,
               timeSlot = Day, currentTime = 55800000, slotEnd = 57600000,
               slotDuration = 1 / 2, slotPrice = 40\<rparr>],
         finalPrice = 120\<rparr>
   \<and> (1::nat) < 2
   \<and> startDateTimeOf (DateString 0) (14, 30) = 52200000
   \<and> resolvedMinutes (14, 30) (16, 0) = 90
   \<and> getMinutes 55800000 = 30
   \<and> getPrice defaultRules 55800000 (getHours 55800000) = Inr (80, Weekday, Day)
   \<and> hourLabel 55800000 57600000 = ''15:30-16:00''"
proof -
  let ?r = "\<lparr>totalHours = 3 / 2,
         breakdown =
           [\<lparr>hour = ''14:30-15:30'', rate = 80, dayType = Weekday,
               timeSlot = Day, currentTime = 52200000, slotEnd = 55800000,
               slotDuration = 1, slotPrice = 80\<rparr>,
            \<lparr>hour = ''15:30-16:00'', rate = 80, dayType = Weekday,
               timeSlot = Day, currentTime = 55800000, slotEnd = 57600000,
               slotDuration = 1 / 2, slotPrice = 40\<rparr>],
         finalPrice = 120\<rparr>"
  have h: "fst (calculateBookingPrice defaultRules (DateString 0) (14, 30) (16, 0)) = Inr ?r"
    by code_simp
  have i: "1 < length (breakdown ?r)" by simp
  have s: "startDateTimeOf (DateString 0) (14, 30) = 52200000"
    by (simp add: startDateTimeOf_def midnightOf_def timeValue_def minuteOfDay_def msPerMinute_def)
  have k: "resolvedMinutes (14, 30) (16, 0) = 90"
    by (simp add: resolvedMinutes_def minuteOfDay_def)
  from C2_hour_steps [OF h i] h s k show ?thesis by simp
qed

text \<open>
  A booking from 14:30 to 16:00 has the inner boundary 15:30, which is neither the
  next clock-hour boundary after 14:30 nor the requested end.
\<close>

theorem C2_clock_hour_counterexample:
  "fst (calculateBookingPrice defaultRules (DateString 0) (14, 30) (16, 0)) =
     Inr \<lparr>totalHours = 3 / 2,
         breakdown =
           [\<lparr>hour = ''14:30-15:30'', rate = 80, dayType = Weekday,
               timeSlot = Day, currentTime = 52200000, slotEnd = 55800000,
               slotDuration = 1, slotPrice = 80\<rparr>,
            \<lparr>hour = ''15:30-16:00'', rate = 80, dayType = Weekday,
               timeSlot = Day, currentTime = 55800000, slotEnd = 57600000,
               slotDuration = 1 / 2, slotPrice = 40\<rparr>],
         finalPrice = 120\<rparr>
   \<and> getHours 55800000 = 15 \<and> getMinutes 55800000 = 30"
  by code_simp








text \<open>
  Claim C6. For a request whose duration passes validation, if one of the hourly steps
  of the request (the instant \<open>n\<close> hours after the start, before the resolved end) is
  not a Saturday-night step and the table holds no active rule for its day type and time
  slot, then the calculation returns the "Pricing rule not found" error for a
  combination that has no active rule; no price is made up.
\<close>

theorem C6_missing_rate:
  assumes "60 \<le> resolvedMinutes startTime endTime"
    and "resolvedMinutes startTime endTime mod 30 = 0"
    and "int n * 60 < resolvedMinutes startTime endTime"
    and "\<not> isSaturdayNight (startDateTimeOf bookingDate startTime + int n * (1000 * 60 * 60))
            (getHours (startDateTimeOf bookingDate startTime + int n * (1000 * 60 * 60)))"
    and "findOneRule rules
           (getDayType (getEffectiveDate
              (startDateTimeOf bookingDate startTime + int n * (1000 * 60 * 60))))
           (getTimeSlot (getHours
              (startDateTimeOf bookingDate startTime + int n * (1000 * 60 * 60)))) = None"
  shows "\<exists>dt ts. fst (calculateBookingPrice rules bookingDate startTime endTime)
                   = Inl (ruleNotFound dt ts)
               \<and> findOneRule rules dt ts = None"
proof -
  let ?k = "resolvedMinutes startTime endTime"
  let ?e = "endDateTimeOf bookingDate startTime endTime"
  let ?s = "startDateTimeOf bookingDate startTime"
  let ?t = "?s + int n * msPerHour"
  have t: "?s + int n * (1000 * 60 * 60) = ?t" by (simp add: msPerHour_def)
  have "int n * 60 * 60000 < ?k * 60000" using assms(3) by simp
  then have lt: "?t < ?e"
    by (simp add: endDateTimeOf_def msPerHour_def msPerMinute_def)
  have "\<exists>err. getPrice rules ?t (getHours ?t) = Inl err"
    using assms(4,5) unfolding t by (simp add: getPrice_def Let_def)
  then obtain err where "getPrice rules ?t (getHours ?t) = Inl err" ..
  from priceLoop_missing [OF lt this]
  obtain err' where pl: "priceLoop rules ?e ?s 0 [] = Inl err'" by blast
  from priceLoop_Inl [OF pl] obtain dt ts
    where "err' = ruleNotFound dt ts" "findOneRule rules dt ts = None" by blast
  then show ?thesis
    using calc_loop [OF assms(1,2), of rules bookingDate] pl by auto
qed

theorem C6_missing_rate_witness:
  "(60::int) \<le> resolvedMinutes (17, 0) (19, 0)
   \<and> resolvedMinutes (17, 0) (19, 0) mod 30 = 0
   \<and> int 1 * 60 < resolvedMinutes (17, 0) (19, 0)
   \<and> (\<exists>dt ts. fst (calculateBookingPrice
          [\<lparr>ruleDayType = Weekday, ruleTimeSlot = Day, pricePerHour = 80, isActive = True\<rparr>,
           \<lparr>ruleDayType = Weekday, ruleTimeSlot = Night, pricePerHour = 100, isActive = False\<rparr>]
          (DateString 0) (17, 0) (19, 0)) = Inl (ruleNotFound dt ts))"
proof -
  let ?rules = "[\<lparr>ruleDayType = Weekday, ruleTimeSlot = Day, pricePerHour = 80, isActive = True\<rparr>,
           \<lparr>ruleDayType = Weekday, ruleTimeSlot = Night, pricePerHour = 100, isActive = False\<rparr>]"
  have k: "resolvedMinutes (17, 0) (19, 0) = 120"
    by (simp add: resolvedMinutes_def minuteOfDay_def)
  have s: "startDateTimeOf (DateString 0) (17, 0) + int 1 * (1000 * 60 * 60) = 64800000"
    by (simp add: startDateTimeOf_def midnightOf_def timeValue_def minuteOfDay_def msPerMinute_def)
  have a: "\<not> isSaturdayNight 64800000 (getHours 64800000)"
    by (simp add: isSaturdayNight_def getEffectiveDate_def getHours_def getDay_def
        msPerDay_def msPerHour_def Let_def)
  have b: "findOneRule ?rules (getDayType (getEffectiveDate 64800000))
             (getTimeSlot (getHours 64800000)) = None"
    by (simp add: findOneRule_def getDayType_def isWeekend_def getEffectiveDate_def getHours_def
        getDay_def getTimeSlot_def isNightTime_def msPerDay_def msPerHour_def Let_def)
  have "\<exists>dt ts. fst (calculateBookingPrice ?rules (DateString 0) (17, 0) (19, 0))
                   = Inl (ruleNotFound dt ts) \<and> findOneRule ?rules dt ts = None"
    by (rule C6_missing_rate [where n = 1]) (simp_all only: k s a b, simp_all)
  with k show ?thesis by auto
qed

text \<open>
  Claim C7. For a stored booking whose status is cancelled or completed, a status
  update with any new status and a cancellation both fail with the bad-request error
  for that terminal status, and the collection is returned as it was. For a stored
  booking whose status is pending, confirmed or blocked, a cancellation succeeds and
  stores the booking with status cancelled.
\<close>

theorem C7_terminal_statuses:
  assumes "findBookingById bs ident = Some b"
  shows "(bkStatus b = Cancelled \<longrightarrow>
            updateBookingStatus bs ident (Some st) notes =
              (Inl (BadRequestError ''Cannot update status of cancelled booking''), bs)
          \<and> cancelBooking bs ident reason =
              (Inl (BadRequestError ''Booking is already cancelled''), bs))
       \<and> (bkStatus b = Completed \<longrightarrow>
            updateBookingStatus bs ident (Some st) notes =
              (Inl (BadRequestError ''Cannot update status of completed booking''), bs)
          \<and> cancelBooking bs ident reason =
              (Inl (BadRequestError ''Cannot cancel completed booking''), bs))
       \<and> (bkStatus b = Pending \<or> bkStatus b = Confirmed \<or> bkStatus b = Blocked \<longrightarrow>
            (\<exists>b'. cancelBooking bs ident reason = (Inr b', saveBooking bs b')
                  \<and> bkId b' = bkId b \<and> bkStatus b' = Cancelled
                  \<and> findBookingById (saveBooking bs b') ident = Some b'))"
proof -
  have idb: "bkId b = ident"
    using assms unfolding findBookingById_def by (auto dest: find_Some_iff [THEN iffD1])
  have found: "findBookingById (saveBooking bs b') ident = Some b'" if "bkId b' = ident" for b'
    using assms that unfolding findBookingById_def saveBooking_def
  proof (induction bs)
    case Nil
    then show ?case by simp
  next
    case (Cons a bs)
    then show ?case by (cases "bkId a = ident") auto
  qed
  show ?thesis
  proof (intro conjI impI)
    assume "bkStatus b = Pending \<or> bkStatus b = Confirmed \<or> bkStatus b = Blocked"
    then have nt: "bkStatus b \<noteq> Cancelled" "bkStatus b \<noteq> Completed" by auto
    obtain b' where c: "cancelBooking bs ident reason = (Inr b', saveBooking bs b')"
      and i: "bkId b' = bkId b" and s: "bkStatus b' = Cancelled"
      using assms nt
      by (auto simp: cancelBooking_def Let_def split: option.splits)
    from found [of b'] i idb have "findBookingById (saveBooking bs b') ident = Some b'" by simp
    with c i s show "\<exists>b'. cancelBooking bs ident reason = (Inr b', saveBooking bs b')
                  \<and> bkId b' = bkId b \<and> bkStatus b' = Cancelled
                  \<and> findBookingById (saveBooking bs b') ident = Some b'" by blast
  qed (use assms in \<open>simp_all add: updateBookingStatus_def cancelBooking_def\<close>)
qed

theorem C7_terminal_statuses_witness:
  "updateBookingStatus [sampleBooking\<lparr>bkStatus := Cancelled\<rparr>] 1 (Some Confirmed) None =
     (Inl (BadRequestError ''Cannot update status of cancelled booking''),
      [sampleBooking\<lparr>bkStatus := Cancelled\<rparr>])
   \<and> cancelBooking [sampleBooking\<lparr>bkStatus := Completed\<rparr>] 1 None =
     (Inl (BadRequestError ''Cannot cancel completed booking''),
      [sampleBooking\<lparr>bkStatus := Completed\<rparr>])
   \<and> (\<exists>b'. cancelBooking [sampleBooking] 1 None = (Inr b', saveBooking [sampleBooking] b')
          \<and> bkStatus b' = Cancelled)"
proof -
  have a: "findBookingById [sampleBooking\<lparr>bkStatus := Cancelled\<rparr>] 1
             = Some (sampleBooking\<lparr>bkStatus := Cancelled\<rparr>)"
    and b: "findBookingById [sampleBooking\<lparr>bkStatus := Completed\<rparr>] 1
             = Some (sampleBooking\<lparr>bkStatus := Completed\<rparr>)"
    and c: "findBookingById [sampleBooking] 1 = Some sampleBooking"
    by (simp_all add: findBookingById_def sampleBooking_def)
  have p1: "updateBookingStatus [sampleBooking\<lparr>bkStatus := Cancelled\<rparr>] 1 (Some Confirmed) None =
     (Inl (BadRequestError ''Cannot update status of cancelled booking''),
      [sampleBooking\<lparr>bkStatus := Cancelled\<rparr>])"
    using C7_terminal_statuses [OF a, of Confirmed None None] by simp
  have p2: "cancelBooking [sampleBooking\<lparr>bkStatus := Completed\<rparr>] 1 None =
     (Inl (BadRequestError ''Cannot cancel completed booking''),
      [sampleBooking\<lparr>bkStatus := Completed\<rparr>])"
    using C7_terminal_statuses [OF b, of Confirmed None None] by simp
  have "bkStatus sampleBooking = Pending" by (simp add: sampleBooking_def)
  then have p3: "\<exists>b'. cancelBooking [sampleBooking] 1 None = (Inr b', saveBooking [sampleBooking] b')
          \<and> bkStatus b' = Cancelled"
    using C7_terminal_statuses [OF c, of Confirmed None None] by blast
  from p1 p2 p3 show ?thesis by blast
qed

text \<open>
  Claim C8. A \<^verbatim>\<open>Date\<close> object passed as \<^verbatim>\<open>bookingDate\<close> is itself set to midnight by
  \<^verbatim>\<open>dateObj.setHours(0, 0, 0, 0)\<close>, since \<open>dateObj\<close> is the argument and not a copy:
  called with the date object for 1 January 1970, 10:00, the function leaves it at 00:00.
\<close>

theorem C8_date_argument_reset:
  "calculateBookingPrice defaultRules (DateObject 36000000) (14, 0) (16, 0) =
     (Inr \<lparr>totalHours = 2,
         breakdown =
           [\<lparr>hour = ''14:00-15:00'', rate = 80, dayType = Weekday,
               timeSlot = Day, currentTime = 50400000, slotEnd = 54000000,
               slotDuration = 1, slotPrice = 80\<rparr>,
            \<lparr>hour = ''15:00-16:00'', rate = 80, dayType = Weekday,
               timeSlot = Day, currentTime = 54000000, slotEnd = 57600000,
               slotDuration = 1, slotPrice = 80\<rparr>],
         finalPrice = 160\<rparr>,
      DateObject 0)"
  by code_simp

text \<open>
  Claim C9. When a manual-booking request with \<^verbatim>\<open>isBlocked\<close> set stores a booking,
  that booking has no customer, total price 0, final price 0, an empty pricing
  breakdown, status blocked and payment status paid; it is appended to the bookings
  and the customers are left as they were (none created, no count incremented). The
  calls made are the court lookup, the time validation, the availability check, the
  duration and the booking creation: no customer lookup or creation, no price
  calculation, no increment of a customer's count.
\<close>

theorem C9_blocked_slot:
  assumes "reqIsBlocked req"
    and "createManualBooking svc db req = (Inr b, db', calls)"
  shows "bkCustomer b = None \<and> bkTotalPrice b = 0 \<and> bkFinalPrice b = 0
       \<and> bkPricingBreakdown b = [] \<and> bkStatus b = Blocked \<and> bkPaymentStatus b = PaymentPaid
       \<and> bookings db' = bookings db @ [b]
       \<and> customers db' = customers db
       \<and> calls = [CourtFindById, ValidateBookingTime, CheckAvailability, CalculateDuration,
                   BookingCreate]"
  using assms
  by (auto simp: createManualBooking_def manualBookingDocument_def Let_def
      split: if_splits)

theorem C9_blocked_slot_witness:
  "reqIsBlocked sampleBlockRequest
   \<and> createManualBooking sampleService sampleDatabase sampleBlockRequest =
       (Inr sampleBlockedBooking, sampleDatabase\<lparr>bookings := [sampleBlockedBooking]\<rparr>,
        [CourtFindById, ValidateBookingTime, CheckAvailability, CalculateDuration,
         BookingCreate])
   \<and> bkCustomer sampleBlockedBooking = None
   \<and> bkStatus sampleBlockedBooking = Blocked
   \<and> bkPaymentStatus sampleBlockedBooking = PaymentPaid
   \<and> customers (sampleDatabase\<lparr>bookings := [sampleBlockedBooking]\<rparr>) = customers sampleDatabase"
proof -
  have a: "reqIsBlocked sampleBlockRequest"
    by (simp add: sampleBlockRequest_def)
  have h: "createManualBooking sampleService sampleDatabase sampleBlockRequest =
       (Inr sampleBlockedBooking, sampleDatabase\<lparr>bookings := [sampleBlockedBooking]\<rparr>,
        [CourtFindById, ValidateBookingTime, CheckAvailability, CalculateDuration,
         BookingCreate])"
    by (simp add: createManualBooking_def manualBookingDocument_def sampleService_def
        sampleDatabase_def sampleBlockRequest_def sampleBlockedBooking_def findCourtById_def
        setHours4_def timeValue_def msPerDay_def msPerHour_def msPerMinute_def nextId_def
        resolvedMinutes_def minuteOfDay_def Let_def)
  from C9_blocked_slot [OF a h] a h show ?thesis by simp
qed



end
